theory Spec2Isabelle
  imports Main
begin

section \<open>JavaScript values, errors and the network\<close>

text \<open>
  The value \<open>res.json()\<close> resolves to. An object is the list of its own properties.
\<close>

datatype json =
    JNull
  | JBool bool
  | JNum int
  | JStr string
  | JArr "json list"
  | JObj "(string \<times> json) list"

text \<open>
  A JavaScript value read from a property: \<open>None\<close> is \<open>undefined\<close>.
\<close>

type_synonym js_value = "json option"

text \<open>
  What a promise rejects with. \<open>FetchError\<close> is the rejection of \<open>fetch\<close> itself
  (connection refused, DNS failure, ...), \<open>SyntaxError\<close> the rejection of
  \<open>res.json()\<close> on a body that is not JSON, \<open>TypeError\<close> a property read on
  \<open>null\<close>. \<open>AcquisitionExhausted e k\<close> is the tagged form the specification names
  (an underlying error \<open>e\<close> with the number \<open>k\<close> of attempts made); no function of the
  source constructs it.
\<close>

datatype js_error =
    FetchError string
  | SyntaxError string
  | TypeError string
  | AcquisitionExhausted js_error nat

text \<open>The \<open>redirect\<close> option of node-fetch; \<open>Follow\<close> is its default.\<close>

datatype redirect_mode = Follow | Manual

record request =
  url :: string
  headers :: "(string \<times> string) list"
  redirect :: redirect_mode

text \<open>
  A response: its status, and what \<open>res.json()\<close> settles to.
\<close>

record response =
  status :: nat
  json_result :: "js_error + json"

text \<open>
  The network is outside the program: the \<open>n\<close>-th request ever issued (counting from 0)
  settles to \<open>net n rq\<close>, a rejection or a response.
\<close>

type_synonym network = "nat \<Rightarrow> request \<Rightarrow> js_error + response"

text \<open>
  The observable effects, in the order they happen: a request sent, the line
  \<open>Failed to fetch token. Retries remaining: <retries>\<close> printed by \<open>console.log\<close>,
  a \<open>setTimeout\<close> delay and a \<open>sleep\<close>, both in milliseconds.
\<close>

datatype event =
    Fetch request
  | Log int
  | Timeout nat
  | Sleep nat

record world =
  requests :: nat
  trace :: "event list"

definition fetch :: "network \<Rightarrow> request \<Rightarrow> world \<Rightarrow> (js_error + response) \<times> world" where
  "fetch net rq w =
     (net (requests w) rq,
      w\<lparr>requests := Suc (requests w), trace := trace w @ [Fetch rq]\<rparr>)"

definition emit :: "event \<Rightarrow> world \<Rightarrow> world" where
  "emit ev w = w\<lparr>trace := trace w @ [ev]\<rparr>"

text \<open>
  \<open>data.name\<close> for a name that is no built-in property (\<open>token\<close>, \<open>user\<close>): a
  \<open>TypeError\<close> on \<open>null\<close>, the property of an object, \<open>undefined\<close> when the object
  has none or the value is a boolean, a number, a string or an array.
\<close>

fun get_prop :: "json \<Rightarrow> string \<Rightarrow> js_error + js_value" where
  "get_prop JNull name = Inl (TypeError (''Cannot read property '' @ name @ '' of null''))"
| "get_prop (JObj props) name = Inr (map_of props name)"
| "get_prop _ name = Inr None"

text \<open>
  The body of a \<open>try\<close> block after the request has settled:
  \<open>const data = await res.json(); resolve(data.<name>)\<close>. Either \<open>await\<close> may
  throw, and so may the property read.
\<close>

definition read_field :: "string \<Rightarrow> js_error + response \<Rightarrow> js_error + js_value" where
  "read_field name r =
     (case r of
        Inl error \<Rightarrow> Inl error
      | Inr res \<Rightarrow>
          (case json_result res of
             Inl error \<Rightarrow> Inl error
           | Inr data \<Rightarrow> get_prop data name))"

section \<open>The retry counter\<close>

text \<open>
  \<open>retries\<close> is a JavaScript number, an IEEE 754 double; the functions below are called
  with integer values of it. The doubles of magnitude \<open>m\<close> are \<open>ulp m\<close> apart: 1
  below \<open>2^53\<close>, 2 from there to \<open>2^54\<close>, and so on.
\<close>

function ulp :: "int \<Rightarrow> int" where
  "ulp m = (if m < 2 ^ 53 then 1 else 2 * ulp (m div 2))"
  by pat_completeness auto
termination
  by (relation "measure nat") auto

text \<open>
  The double nearest to an integer, a tie going to the even significand (no integer in
  reach of a subtraction from a finite double overflows).
\<close>

definition to_double :: "int \<Rightarrow> int" where
  "to_double y =
     (let u = ulp \<bar>y\<bar>; q = y div u; r = y mod u
      in if 2 * r < u then q * u
         else if u < 2 * r then (q + 1) * u
         else if even q then q * u
         else (q + 1) * u)"

text \<open>\<open>retries - 1\<close> as JavaScript computes it.\<close>

definition js_minus_one :: "int \<Rightarrow> int" where
  "js_minus_one retries = to_double (retries - 1)"

section \<open>The retrying token fetch\<close>

definition token_request :: "string \<Rightarrow> request" where
  "token_request u = \<lparr>url = u, headers = [], redirect = Follow\<rparr>"

text \<open>
  \<open>fetchTokenWithRetry(url, retries)\<close>, \<open>retries\<close> being 3 when the caller gives
  none. On a negative \<open>retries\<close>, or one too large to count down exactly, the test
  \<open>retries === 0\<close> may never hold, so the function need not return and its result is
  an option.
\<close>

partial_function (option) fetchTokenWithRetry ::
  "network \<Rightarrow> string \<Rightarrow> int \<Rightarrow> world \<Rightarrow> ((js_error + js_value) \<times> world) option" where
  "fetchTokenWithRetry net u retries w =
     (case fetch net (token_request u) w of
        (r, w1) \<Rightarrow>
          (case read_field ''token'' r of
             Inr token \<Rightarrow> Some (Inr token, w1)
           | Inl error \<Rightarrow>
               if retries = 0 then Some (Inl error, emit (Log retries) w1)
               else fetchTokenWithRetry net u (js_minus_one retries)
                      (emit (Timeout 500) (emit (Log retries) w1))))"

text \<open>
  The events of \<open>k\<close> failed rounds that started with \<open>retries\<close> retries left: each
  round sends the request, prints the retries left and sets the 500 ms timer.
\<close>

abbreviation failed_rounds :: "request \<Rightarrow> int \<Rightarrow> nat \<Rightarrow> event list" where
  "failed_rounds rq retries k \<equiv>
     concat (map (\<lambda>j. [Fetch rq, Log (retries - int j), Timeout 500]) [0..<k])"

section \<open>The user-information fetch\<close>

definition user_url :: string where
  "user_url = ''https://api.zeit.co/www/user''"

definition user_request :: "string \<Rightarrow> request" where
  "user_request token =
     \<lparr>url = user_url, headers = [(''Authorization'', ''Bearer '' @ token)], redirect = Follow\<rparr>"

text \<open>
  \<open>fetchTokenInformation(token, retries)\<close>. The first attempt sends the bearer token and
  resolves \<open>data.user\<close>; the timer callback of the \<open>catch\<close> block calls
  \<open>fetchTokenWithRetry(url, retries - 1)\<close>.
\<close>

definition fetchTokenInformation ::
  "network \<Rightarrow> string \<Rightarrow> int \<Rightarrow> world \<Rightarrow> ((js_error + js_value) \<times> world) option" where
  "fetchTokenInformation net token retries w =
     (case fetch net (user_request token) w of
        (r, w1) \<Rightarrow>
          (case read_field ''user'' r of
             Inr user \<Rightarrow> Some (Inr user, w1)
           | Inl error \<Rightarrow>
               if retries = 0 then Some (Inl error, emit (Log retries) w1)
               else fetchTokenWithRetry net user_url (js_minus_one retries)
                      (emit (Timeout 500) (emit (Log retries) w1))))"

section \<open>The readiness poller\<close>

definition probe_request :: "string \<Rightarrow> request" where
  "probe_request href = \<lparr>url = href, headers = [], redirect = Manual\<rparr>"

text \<open>
  \<open>waitForDeployment(href)\<close>: \<open>while (true)\<close> with a \<open>break\<close> on status 200. The
  \<open>await fetch\<close> stands in no \<open>try\<close> block, so a rejected probe rejects the call.
  The loop has no bound, so the result is an option.
\<close>

partial_function (option) waitForDeployment ::
  "network \<Rightarrow> string \<Rightarrow> world \<Rightarrow> ((js_error + unit) \<times> world) option" where
  "waitForDeployment net href w =
     (case fetch net (probe_request href) w of
        (r, w1) \<Rightarrow>
          (case r of
             Inl error \<Rightarrow> Some (Inl error, w1)
           | Inr response \<Rightarrow>
               if status response = 200 then Some (Inr (), w1)
               else waitForDeployment net href (emit (Sleep 2000) w1)))"

text \<open>The events of \<open>k\<close> probes that found the deployment not ready.\<close>

abbreviation unready_rounds :: "request \<Rightarrow> nat \<Rightarrow> event list" where
  "unready_rounds rq k \<equiv> concat (replicate k [Fetch rq, Sleep 2000])"

section \<open>The alias target resolver\<close>

text \<open>
  The functions \<open>getDeploymentForAlias\<close> imports, whose code is elsewhere: each returns
  a value or throws. \<open>cmd\<close> and \<open>bold\<close> (\<open>chalk.bold\<close>) format a string. The
  \<open>output\<close> object they share is the event list below.
\<close>

record ('client, 'config, 'user, 'deployment) collaborators =
  fetchDeploymentByIdOrHost :: "'client \<Rightarrow> string \<Rightarrow> string \<Rightarrow> js_error + 'deployment"
  getAppName :: "'config \<Rightarrow> string option \<Rightarrow> js_error + string"
  getAppLastDeployment :: "'client \<Rightarrow> string \<Rightarrow> 'user \<Rightarrow> string \<Rightarrow> js_error + 'deployment"
  cmd :: "string \<Rightarrow> string"
  bold :: "string \<Rightarrow> string"

text \<open>
  What the resolver does, in order: \<open>output.warn\<close>, \<open>wait\<close> (the working indicator
  starts), the call of the function \<open>wait\<close> returned, and the calls of the three
  lookups with their string arguments.
\<close>

datatype alias_event =
    Warn string
  | Wait string
  | CancelWait
  | FetchDeploymentByIdOrHost string string
  | GetAppName
  | GetAppLastDeployment string string

definition getDeploymentForAlias ::
  "('client, 'config, 'user, 'deployment) collaborators \<Rightarrow> 'client \<Rightarrow> string list \<Rightarrow>
     string option \<Rightarrow> 'user \<Rightarrow> string \<Rightarrow> 'config \<Rightarrow>
     (js_error + 'deployment) \<times> alias_event list" where
  "getDeploymentForAlias env client args localConfigPath user contextName localConfig =
     (let out0 =
        [Warn (''The '' @ cmd env ''now alias'' @ '' command was deprecated in favour of ''
                 @ cmd env ''now --target production'' @ ''.''),
         Wait (''Fetching deployment to alias in '' @ bold env contextName)]
      in
        if length args = 2 then
          (let deploymentId = hd args;
               out1 = out0 @ [FetchDeploymentByIdOrHost contextName deploymentId]
           in case fetchDeploymentByIdOrHost env client contextName deploymentId of
                Inl error \<Rightarrow> (Inl error, out1)
              | Inr deployment \<Rightarrow> (Inr deployment, out1 @ [CancelWait]))
        else
          (let out1 = out0 @ [GetAppName]
           in case getAppName env localConfig localConfigPath of
                Inl error \<Rightarrow> (Inl error, out1)
              | Inr appName \<Rightarrow>
                  (let out2 = out1 @ [GetAppLastDeployment appName contextName]
                   in case getAppLastDeployment env client appName user contextName of
                        Inl error \<Rightarrow> (Inl error, out2)
                      | Inr deployment \<Rightarrow> (Inr deployment, out2 @ [CancelWait]))))"

text \<open>How often the working indicator was cancelled.\<close>

definition cancel_count :: "alias_event list \<Rightarrow> nat" where
  "cancel_count out = count_list out CancelWait"

section \<open>Concrete networks and collaborators\<close>

definition w0 :: world where
  "w0 = \<lparr>requests = 0, trace = []\<rparr>"

text \<open>A network on which every request is refused.\<close>

definition net_down :: network where
  "net_down n rq = Inl (FetchError ''ECONNREFUSED'')"

text \<open>
  A network that refuses the first \<open>k\<close> requests and answers every later one with
  status 200 and the JSON value \<open>body\<close>.
\<close>

definition net_after :: "nat \<Rightarrow> json \<Rightarrow> network" where
  "net_after k body n rq =
     (if n < k then Inl (FetchError ''ECONNREFUSED'')
      else Inr \<lparr>status = 200, json_result = Inr body\<rparr>)"

text \<open>A response with the given status whose body is not JSON.\<close>

definition resp :: "nat \<Rightarrow> js_error + response" where
  "resp st = Inr \<lparr>status = st, json_result = Inl (SyntaxError ''Unexpected token <'')\<rparr>"

text \<open>
  A network that settles the \<open>n\<close>-th request as the \<open>n\<close>-th entry of a list says,
  and refuses every request once the list is used up.
\<close>

definition net_script :: "(js_error + response) list \<Rightarrow> network" where
  "net_script outcomes n rq =
     (if n < length outcomes then outcomes ! n else Inl (FetchError ''ECONNREFUSED''))"

text \<open>
  Collaborators over strings: the explicit lookup and the last-deployment lookup settle
  to the given results, the application name is \<open>my-app\<close>, the formatters change
  nothing.
\<close>

definition env_of ::
  "js_error + string \<Rightarrow> js_error + string \<Rightarrow> js_error + string \<Rightarrow>
     (string, string, string, string) collaborators" where
  "env_of byId name lastDep =
     \<lparr>fetchDeploymentByIdOrHost = (\<lambda>client contextName deploymentId. byId),
      getAppName = (\<lambda>localConfig localConfigPath. name),
      getAppLastDeployment = (\<lambda>client appName user contextName. lastDep),
      cmd = (\<lambda>s. s),
      bold = (\<lambda>s. s)\<rparr>"

section \<open>Counting down\<close>

declare ulp.simps [simp del]

lemma ulp_below_2_53: "m < 2 ^ 53 \<Longrightarrow> ulp m = 1"
  by (subst ulp.simps) simp

lemma ulp_below_2_54: "2 ^ 53 \<le> m \<Longrightarrow> m < 2 ^ 54 \<Longrightarrow> ulp m = 2"
  by (subst ulp.simps) (simp add: ulp_below_2_53)

text \<open>Every integer of magnitude at most \<open>2^53\<close> is a double.\<close>

lemma to_double_exact:
  assumes "\<bar>y\<bar> \<le> 2 ^ 53"
  shows "to_double y = y"
proof (cases "\<bar>y\<bar> < 2 ^ 53")
  case True
  then show ?thesis by (simp add: to_double_def ulp_below_2_53)
next
  case False
  with assms have "\<bar>y\<bar> = 2 ^ 53" by simp
  then have "y = 2 ^ 53 \<or> y = - (2 ^ 53)" by linarith
  then show ?thesis
    by (auto simp: to_double_def ulp_below_2_54)
qed

lemma js_minus_one_exact:
  assumes "- (2 ^ 53) < retries" and "retries \<le> 2 ^ 53"
  shows "js_minus_one retries = retries - 1"
  unfolding js_minus_one_def using assms by (intro to_double_exact) simp

text \<open>
  Above \<open>2^53\<close> the countdown is no longer exact: from \<open>2^53 + 2\<close> it skips
  \<open>2^53 + 1\<close>, and at \<open>2^54\<close> it does not move.
\<close>

lemma js_minus_one_skips: "js_minus_one (2 ^ 53 + 2) = 2 ^ 53"
  by (simp add: js_minus_one_def to_double_def ulp_below_2_54)

lemma js_minus_one_stalls: "js_minus_one (2 ^ 54) = 2 ^ 54"
  by (simp add: js_minus_one_def to_double_def ulp_below_2_54)

section \<open>One round of the retrying token fetch\<close>

lemma fetchTokenWithRetry_success:
  assumes "read_field ''token'' (net (requests w) (token_request u)) = Inr v"
  shows "fetchTokenWithRetry net u retries w =
           Some (Inr v, w\<lparr>requests := Suc (requests w),
                          trace := trace w @ [Fetch (token_request u)]\<rparr>)"
  using assms by (subst fetchTokenWithRetry.simps) (simp add: fetch_def)

lemma fetchTokenWithRetry_exhausted:
  assumes "read_field ''token'' (net (requests w) (token_request u)) = Inl e"
  shows "fetchTokenWithRetry net u 0 w =
           Some (Inl e, w\<lparr>requests := Suc (requests w),
                          trace := trace w @ [Fetch (token_request u), Log 0]\<rparr>)"
  using assms by (subst fetchTokenWithRetry.simps) (simp add: fetch_def emit_def)

lemma fetchTokenWithRetry_retry:
  assumes "read_field ''token'' (net (requests w) (token_request u)) = Inl e"
    and "retries \<noteq> 0"
  shows "fetchTokenWithRetry net u retries w =
           fetchTokenWithRetry net u (js_minus_one retries)
             (w\<lparr>requests := Suc (requests w),
                trace := trace w @ [Fetch (token_request u), Log retries, Timeout 500]\<rparr>)"
  using assms by (subst fetchTokenWithRetry.simps) (simp add: fetch_def emit_def)

text \<open>
  \<open>k\<close> failed rounds in a row, with at least \<open>k\<close> and at most \<open>2^53\<close> retries left,
  lead to the call with \<open>k\<close> retries fewer.
\<close>

lemma fetchTokenWithRetry_rounds:
  assumes "\<And>j. j < k \<Longrightarrow>
             read_field ''token'' (net (requests w + j) (token_request u)) = Inl (e j)"
    and "int k \<le> retries"
    and "retries \<le> 2 ^ 53"
  shows "fetchTokenWithRetry net u retries w =
           fetchTokenWithRetry net u (retries - int k)
             (w\<lparr>requests := requests w + k,
                trace := trace w @ failed_rounds (token_request u) retries k\<rparr>)"
  using assms
proof (induction k)
  case 0
  then show ?case by simp
next
  case (Suc k)
  let ?wk = "w\<lparr>requests := requests w + k,
                trace := trace w @ failed_rounds (token_request u) retries k\<rparr>"
  have "fetchTokenWithRetry net u retries w = fetchTokenWithRetry net u (retries - int k) ?wk"
    using Suc by simp
  also have "\<dots> = fetchTokenWithRetry net u (js_minus_one (retries - int k))
      (?wk\<lparr>requests := Suc (requests ?wk),
           trace := trace ?wk @ [Fetch (token_request u), Log (retries - int k), Timeout 500]\<rparr>)"
  proof (rule fetchTokenWithRetry_retry)
    show "read_field ''token'' (net (requests ?wk) (token_request u)) = Inl (e k)"
      using Suc.prems(1) [of k] by simp
    show "retries - int k \<noteq> 0" using Suc.prems(2) by simp
  qed
  also have "js_minus_one (retries - int k) = retries - int k - 1"
    using Suc.prems(2,3) by (intro js_minus_one_exact) simp_all
  finally show ?case by (simp add: algebra_simps)
qed

section \<open>One round of the readiness poller\<close>

lemma waitForDeployment_ready:
  assumes "net (requests w) (probe_request href) = Inr r" and "status r = 200"
  shows "waitForDeployment net href w =
           Some (Inr (), w\<lparr>requests := Suc (requests w),
                           trace := trace w @ [Fetch (probe_request href)]\<rparr>)"
  using assms by (subst waitForDeployment.simps) (simp add: fetch_def)

lemma waitForDeployment_rejected:
  assumes "net (requests w) (probe_request href) = Inl e"
  shows "waitForDeployment net href w =
           Some (Inl e, w\<lparr>requests := Suc (requests w),
                          trace := trace w @ [Fetch (probe_request href)]\<rparr>)"
  using assms by (subst waitForDeployment.simps) (simp add: fetch_def)

lemma waitForDeployment_unready:
  assumes "net (requests w) (probe_request href) = Inr r" and "status r \<noteq> 200"
  shows "waitForDeployment net href w =
           waitForDeployment net href
             (w\<lparr>requests := Suc (requests w),
                trace := trace w @ [Fetch (probe_request href), Sleep 2000]\<rparr>)"
  using assms by (subst waitForDeployment.simps) (simp add: fetch_def emit_def)

lemma concat_replicate_snoc:
  "concat (replicate k xs) @ xs = xs @ concat (replicate k xs)"
  by (induction k) simp_all

lemma waitForDeployment_rounds:
  assumes "\<And>j. j < k \<Longrightarrow>
             net (requests w + j) (probe_request href) = Inr (r j) \<and> status (r j) \<noteq> 200"
  shows "waitForDeployment net href w =
           waitForDeployment net href
             (w\<lparr>requests := requests w + k,
                trace := trace w @ unready_rounds (probe_request href) k\<rparr>)"
  using assms
proof (induction k)
  case 0
  then show ?case by simp
next
  case (Suc k)
  let ?wk = "w\<lparr>requests := requests w + k,
                trace := trace w @ unready_rounds (probe_request href) k\<rparr>"
  have "waitForDeployment net href w = waitForDeployment net href ?wk"
    using Suc by simp
  also have "\<dots> = waitForDeployment net href
      (?wk\<lparr>requests := Suc (requests ?wk),
           trace := trace ?wk @ [Fetch (probe_request href), Sleep 2000]\<rparr>)"
  proof (rule waitForDeployment_unready)
    show "net (requests ?wk) (probe_request href) = Inr (r k)"
      using Suc.prems [of k] by simp
    show "status (r k) \<noteq> 200" using Suc.prems [of k] by simp
  qed
  finally show ?case by (simp add: concat_replicate_snoc)
qed

text \<open>
  Whenever the poller returns, it has sent some \<open>k + 1\<close> probes: the first \<open>k\<close> got
  a response with another status than 200, and the last one decided the result.
\<close>

lemma waitForDeployment_returns:
  "waitForDeployment net href w = Some y \<Longrightarrow>
   \<exists>k. requests (snd y) = requests w + Suc k
           \<and> trace (snd y) =
               trace w @ unready_rounds (probe_request href) k @ [Fetch (probe_request href)]
           \<and> (\<forall>j<k. \<exists>r. net (requests w + j) (probe_request href) = Inr r \<and> status r \<noteq> 200)
           \<and> (case fst y of
                Inl e \<Rightarrow> net (requests w + k) (probe_request href) = Inl e
              | Inr u \<Rightarrow> (\<exists>r. net (requests w + k) (probe_request href) = Inr r
                                \<and> status r = 200))"
proof (induction rule: waitForDeployment.raw_induct [rotated 1, consumes 1])
  case (1 wfd net href w y)
  let ?rq = "probe_request href"
  let ?w1 = "w\<lparr>requests := Suc (requests w), trace := trace w @ [Fetch ?rq]\<rparr>"
  show ?case
  proof (cases "net (requests w) ?rq")
    case (Inl e)
    with 1(2) have "y = (Inl e, ?w1)" by (simp add: fetch_def)
    with Inl show ?thesis by (intro exI [of _ 0]) simp
  next
    case (Inr r)
    show ?thesis
    proof (cases "status r = 200")
      case True
      with Inr 1(2) have "y = (Inr (), ?w1)" by (simp add: fetch_def)
      with Inr True show ?thesis by (intro exI [of _ 0]) simp
    next
      case False
      let ?w2 = "w\<lparr>requests := Suc (requests w), trace := trace w @ [Fetch ?rq, Sleep 2000]\<rparr>"
      from Inr False 1(2) have "wfd net href ?w2 = Some y"
        by (simp add: fetch_def emit_def)
      from 1(1) [OF this] obtain k where k:
        "requests (snd y) = requests ?w2 + Suc k"
        "trace (snd y) = trace ?w2 @ unready_rounds ?rq k @ [Fetch ?rq]"
        "\<forall>j<k. \<exists>r. net (requests ?w2 + j) ?rq = Inr r \<and> status r \<noteq> 200"
        "case fst y of
           Inl e \<Rightarrow> net (requests ?w2 + k) ?rq = Inl e
         | Inr u \<Rightarrow> (\<exists>r. net (requests ?w2 + k) ?rq = Inr r \<and> status r = 200)"
        by blast
      have earlier: "\<forall>j<Suc k. \<exists>r. net (requests w + j) ?rq = Inr r \<and> status r \<noteq> 200"
      proof (intro allI impI)
        fix j assume "j < Suc k"
        show "\<exists>r. net (requests w + j) ?rq = Inr r \<and> status r \<noteq> 200"
        proof (cases j)
          case 0
          with Inr False show ?thesis by simp
        next
          case (Suc i)
          with \<open>j < Suc k\<close> k(3) show ?thesis by simp
        qed
      qed
      show ?thesis
        using k(1,2,4) earlier by (intro exI [of _ "Suc k"]) (simp split: sum.splits)
    qed
  qed
qed

section \<open>Claims about the retrying token fetch\<close>



text \<open>
  C3, as amended. When every attempt fails and no retry is left (\<open>retries = n\<close> with
  \<open>n\<close> up to \<open>2^53\<close>, so that the count reaches 0 after \<open>n + 1\<close> attempts), the
  error surfaced to the caller is the error of the last attempt itself, as it was
  thrown: the function passes it to \<open>reject\<close> unchanged, with no tag and no count of
  attempts.
\<close>

theorem fetchTokenWithRetry_surfaces_last_error:
  assumes "n \<le> 2 ^ 53"
    and "\<forall>j\<le>n. read_field ''token'' (net (requests w + j) (token_request u)) = Inl (e j)"
  shows "map_option fst (fetchTokenWithRetry net u (int n) w) = Some (Inl (e n))"
proof -
  let ?wn = "w\<lparr>requests := requests w + n,
                trace := trace w @ failed_rounds (token_request u) (int n) n\<rparr>"
  have "fetchTokenWithRetry net u (int n) w = fetchTokenWithRetry net u (int n - int n) ?wn"
    using assms by (intro fetchTokenWithRetry_rounds [where e = e]) simp_all
  moreover have "read_field ''token'' (net (requests ?wn) (token_request u)) = Inl (e n)"
    using assms by simp
  ultimately show ?thesis
    by (simp add: fetchTokenWithRetry_exhausted)
qed

theorem fetchTokenWithRetry_surfaces_last_error_witness:
  "map_option fst (fetchTokenWithRetry net_down ''https://api-token-factory.zeit.sh'' 3 w0) =
     Some (Inl (FetchError ''ECONNREFUSED''))"
  using fetchTokenWithRetry_surfaces_last_error
          [of 3 net_down w0 "''https://api-token-factory.zeit.sh''"
              "\<lambda>j. FetchError ''ECONNREFUSED''"]
  by (simp add: net_down_def read_field_def w0_def numeral_3_eq_3)

text \<open>
  C3, as stated, fails: on a network that refuses every request, with the default three
  retries, the caller receives the \<open>FetchError\<close> of the fourth attempt and not an
  \<open>AcquisitionExhausted\<close> error carrying it with the four attempts made.
\<close>

theorem fetchTokenWithRetry_error_not_tagged:
  "map_option fst (fetchTokenWithRetry net_down ''https://api-token-factory.zeit.sh'' 3 w0) =
     Some (Inl (FetchError ''ECONNREFUSED''))
   \<and> map_option fst (fetchTokenWithRetry net_down ''https://api-token-factory.zeit.sh'' 3 w0) \<noteq>
     Some (Inl (AcquisitionExhausted (FetchError ''ECONNREFUSED'') 4))"
proof -
  have fails: "read_field ''token'' (net_down n rq) = Inl (FetchError ''ECONNREFUSED'')" for n rq
    by (simp add: net_down_def read_field_def)
  have "fetchTokenWithRetry net_down ''https://api-token-factory.zeit.sh'' 3 w0 =
          fetchTokenWithRetry net_down ''https://api-token-factory.zeit.sh'' (3 - int 3)
            (w0\<lparr>requests := requests w0 + 3,
                trace := trace w0 @
                  failed_rounds (token_request ''https://api-token-factory.zeit.sh'') 3 3\<rparr>)"
    by (rule fetchTokenWithRetry_rounds [where e = "\<lambda>j. FetchError ''ECONNREFUSED''"])
       (simp_all add: fails)
  then show ?thesis
    by (simp add: fetchTokenWithRetry_exhausted [OF fails])
qed



section \<open>Claims about the readiness poller\<close>

text \<open>
  C4. When the first \<open>k\<close> probes get a response with another status than 200 and the
  next probe (probe \<open>i = k + 1\<close>) is the first to get status 200,
  \<open>waitForDeployment\<close> returns after exactly \<open>i\<close> probes and not earlier: each of
  the first \<open>k\<close> probes is followed by a sleep and the \<open>i\<close>-th probe is the last
  event. For the statuses 503, 503, 200 it returns after the third probe.
\<close>

theorem waitForDeployment_returns_at_first_200:
  assumes "\<forall>j<k. net (requests w + j) (probe_request href) = Inr (r j) \<and> status (r j) \<noteq> 200"
    and "net (requests w + k) (probe_request href) = Inr (r k)"
    and "status (r k) = 200"
  shows "waitForDeployment net href w =
           Some (Inr (),
                 w\<lparr>requests := requests w + (k + 1),
                   trace := trace w @ unready_rounds (probe_request href) k
                              @ [Fetch (probe_request href)]\<rparr>)"
proof -
  let ?wk = "w\<lparr>requests := requests w + k,
                trace := trace w @ unready_rounds (probe_request href) k\<rparr>"
  have "waitForDeployment net href w = waitForDeployment net href ?wk"
    using assms(1) by (intro waitForDeployment_rounds [where r = r]) simp
  also have "\<dots> = Some (Inr (), ?wk\<lparr>requests := Suc (requests ?wk),
                       trace := trace ?wk @ [Fetch (probe_request href)]\<rparr>)"
    using assms(2,3) by (intro waitForDeployment_ready [where r = "r k"]) simp_all
  finally show ?thesis by simp
qed

theorem waitForDeployment_returns_at_first_200_witness:
  "waitForDeployment (net_script [resp 503, resp 503, resp 200]) ''https://app.now.sh'' w0 =
     Some (Inr (),
           \<lparr>requests = 3,
            trace =
              [Fetch (probe_request ''https://app.now.sh''), Sleep 2000,
               Fetch (probe_request ''https://app.now.sh''), Sleep 2000,
               Fetch (probe_request ''https://app.now.sh'')]\<rparr>)"
  using waitForDeployment_returns_at_first_200
          [of 2 "net_script [resp 503, resp 503, resp 200]" w0 "''https://app.now.sh''"
              "\<lambda>j. \<lparr>status = (if j < 2 then 503 else 200),
                     json_result = Inl (SyntaxError ''Unexpected token <'')\<rparr>"]
  by (simp add: net_script_def resp_def w0_def numeral_2_eq_2 less_Suc_eq)

text \<open>
  C5, as stated, fails: when the probe itself is rejected (the connection is refused),
  \<open>waitForDeployment\<close> rejects with that error after the first probe; it neither
  sleeps nor probes again.
\<close>

theorem waitForDeployment_probe_error_escapes:
  "waitForDeployment net_down ''https://app.now.sh'' w0 =
     Some (Inl (FetchError ''ECONNREFUSED''),
           \<lparr>requests = 1, trace = [Fetch (probe_request ''https://app.now.sh'')]\<rparr>)"
  by (simp add: waitForDeployment_rejected [where e = "FetchError ''ECONNREFUSED''"]
        net_down_def w0_def)

text \<open>
  C5, as amended. Every probe that gets a response with another status than 200 (3xx,
  4xx, 5xx) is absorbed: after \<open>k\<close> such responses in a row the poller has slept
  2000 ms after each of them, has not returned, and probes again. A probe that is itself
  rejected (a connection failure) is not absorbed: its error rejects the call at once,
  with no sleep after it.
\<close>

theorem waitForDeployment_absorbs_statuses:
  assumes "\<forall>j<k. net (requests w + j) (probe_request href) = Inr (r j) \<and> status (r j) \<noteq> 200"
  shows "waitForDeployment net href w =
           waitForDeployment net href
             (w\<lparr>requests := requests w + k,
                trace := trace w @ unready_rounds (probe_request href) k\<rparr>)
         \<and> (\<forall>y. waitForDeployment net href w = Some y \<longrightarrow> requests w + k < requests (snd y))
         \<and> (\<forall>e. net (requests w + k) (probe_request href) = Inl e \<longrightarrow>
               waitForDeployment net href w =
                 Some (Inl e,
                       w\<lparr>requests := requests w + (k + 1),
                         trace := trace w @ unready_rounds (probe_request href) k
                                    @ [Fetch (probe_request href)]\<rparr>))"
proof -
  let ?wk = "w\<lparr>requests := requests w + k,
                trace := trace w @ unready_rounds (probe_request href) k\<rparr>"
  have rounds: "waitForDeployment net href w = waitForDeployment net href ?wk"
    using assms by (intro waitForDeployment_rounds [where r = r]) simp
  have later: "requests w + k < requests (snd y)" if "waitForDeployment net href w = Some y" for y
  proof -
    from that rounds have "waitForDeployment net href ?wk = Some y" by simp
    from waitForDeployment_returns [OF this] show ?thesis by auto
  qed
  have rejected: "waitForDeployment net href w =
      Some (Inl e, w\<lparr>requests := requests w + (k + 1),
                     trace := trace w @ unready_rounds (probe_request href) k
                                @ [Fetch (probe_request href)]\<rparr>)"
    if "net (requests w + k) (probe_request href) = Inl e" for e
  proof -
    have "waitForDeployment net href ?wk =
            Some (Inl e, ?wk\<lparr>requests := Suc (requests ?wk),
                             trace := trace ?wk @ [Fetch (probe_request href)]\<rparr>)"
      using that by (intro waitForDeployment_rejected) simp
    with rounds show ?thesis by simp
  qed
  from rounds later rejected show ?thesis by blast
qed

theorem waitForDeployment_absorbs_statuses_witness:
  "waitForDeployment (net_script [resp 302, resp 404, resp 503]) ''https://app.now.sh'' w0 =
     Some (Inl (FetchError ''ECONNREFUSED''),
           \<lparr>requests = 4,
            trace =
              [Fetch (probe_request ''https://app.now.sh''), Sleep 2000,
               Fetch (probe_request ''https://app.now.sh''), Sleep 2000,
               Fetch (probe_request ''https://app.now.sh''), Sleep 2000,
               Fetch (probe_request ''https://app.now.sh'')]\<rparr>)"
proof -
  let ?net = "net_script [resp 302, resp 404, resp 503]"
  let ?r = "\<lambda>j. \<lparr>status = [302, 404, 503] ! j,
                  json_result = Inl (SyntaxError ''Unexpected token <'')\<rparr>"
  have unready: "\<forall>j<3. ?net (requests w0 + j) (probe_request ''https://app.now.sh'') = Inr (?r j)
                       \<and> status (?r j) \<noteq> 200"
    by (simp add: net_script_def resp_def w0_def numeral_3_eq_3 less_Suc_eq)
  have refused: "?net (requests w0 + 3) (probe_request ''https://app.now.sh'') =
                   Inl (FetchError ''ECONNREFUSED'')"
    by (simp add: net_script_def w0_def)
  from waitForDeployment_absorbs_statuses
         [of 3 ?net w0 "''https://app.now.sh''" ?r] unready refused
  have "waitForDeployment ?net ''https://app.now.sh'' w0 =
          Some (Inl (FetchError ''ECONNREFUSED''),
                w0\<lparr>requests := requests w0 + (3 + 1),
                   trace := trace w0 @ unready_rounds (probe_request ''https://app.now.sh'') 3
                              @ [Fetch (probe_request ''https://app.now.sh'')]\<rparr>)"
    by blast
  then show ?thesis by (simp add: w0_def numeral_3_eq_3)
qed

text \<open>
  C6. \<open>waitForDeployment\<close> sends its probe with \<open>redirect: 'manual'\<close> and takes a
  302 response as not ready. Let the first probe get a 302 response, the next \<open>k\<close>
  probes any responses with another status than 200, and the probe after them either
  status 200 or a rejection. Then the call settles only at that last probe, as the last
  probe says: it has sent \<open>k + 2\<close> requests, each of them the GET of \<open>href\<close> with
  redirects not followed, and it has slept 2000 ms after the 302 response and after
  each of the \<open>k\<close> responses; no request follows the redirect.
\<close>

theorem waitForDeployment_redirect_not_ready:
  assumes "net (requests w) \<lparr>url = href, headers = [], redirect = Manual\<rparr> = Inr r0"
    and "status r0 = 302"
    and "\<forall>j<k. net (requests w + 1 + j) \<lparr>url = href, headers = [], redirect = Manual\<rparr>
                   = Inr (r j) \<and> status (r j) \<noteq> 200"
    and "net (requests w + 1 + k) \<lparr>url = href, headers = [], redirect = Manual\<rparr> = fin"
    and "\<forall>rl. fin = Inr rl \<longrightarrow> status rl = 200"
  shows "waitForDeployment net href w =
           Some ((case fin of Inl error \<Rightarrow> Inl error | Inr rl \<Rightarrow> Inr ()),
                 w\<lparr>requests := requests w + (k + 2),
                   trace := trace w
                     @ [Fetch \<lparr>url = href, headers = [], redirect = Manual\<rparr>, Sleep 2000]
                     @ unready_rounds \<lparr>url = href, headers = [], redirect = Manual\<rparr> k
                     @ [Fetch \<lparr>url = href, headers = [], redirect = Manual\<rparr>]\<rparr>)"
proof -
  let ?rq = "probe_request href"
  have rq: "\<lparr>url = href, headers = [], redirect = Manual\<rparr> = ?rq"
    by (simp add: probe_request_def)
  let ?w1 = "w\<lparr>requests := Suc (requests w), trace := trace w @ [Fetch ?rq, Sleep 2000]\<rparr>"
  let ?wk = "?w1\<lparr>requests := requests ?w1 + k, trace := trace ?w1 @ unready_rounds ?rq k\<rparr>"
  let ?end = "?wk\<lparr>requests := Suc (requests ?wk), trace := trace ?wk @ [Fetch ?rq]\<rparr>"
  have "waitForDeployment net href w = waitForDeployment net href ?w1"
    using assms(1,2) unfolding rq by (intro waitForDeployment_unready [where r = r0]) simp_all
  also have "\<dots> = waitForDeployment net href ?wk"
    using assms(3) unfolding rq by (intro waitForDeployment_rounds [where r = r]) simp
  also have "\<dots> = Some ((case fin of Inl error \<Rightarrow> Inl error | Inr rl \<Rightarrow> Inr ()), ?end)"
  proof (cases fin)
    case (Inl error)
    with assms(4) have "net (requests ?wk) ?rq = Inl error"
      unfolding rq by simp
    with waitForDeployment_rejected [where net = net and w = ?wk and href = href and e = error]
      Inl show ?thesis by simp
  next
    case (Inr rl)
    with assms(4,5) have "net (requests ?wk) ?rq = Inr rl" and "status rl = 200"
      unfolding rq by simp_all
    with waitForDeployment_ready [where net = net and w = ?wk and href = href and r = rl]
      Inr show ?thesis by simp
  qed
  finally show ?thesis unfolding rq by simp
qed

theorem waitForDeployment_redirect_not_ready_witness:
  "waitForDeployment (net_script [resp 302, resp 503, resp 200]) ''https://app.now.sh'' w0 =
     Some (Inr (),
           \<lparr>requests = 3,
            trace =
              [Fetch \<lparr>url = ''https://app.now.sh'', headers = [], redirect = Manual\<rparr>,
               Sleep 2000,
               Fetch \<lparr>url = ''https://app.now.sh'', headers = [], redirect = Manual\<rparr>,
               Sleep 2000,
               Fetch \<lparr>url = ''https://app.now.sh'', headers = [], redirect = Manual\<rparr>]\<rparr>)"
proof -
  let ?net = "net_script [resp 302, resp 503, resp 200]"
  let ?rq = "\<lparr>url = ''https://app.now.sh'', headers = [], redirect = Manual\<rparr>"
  let ?body = "Inl (SyntaxError ''Unexpected token <'') :: js_error + json"
  have redirected: "?net (requests w0) ?rq = Inr \<lparr>status = 302, json_result = ?body\<rparr>"
    by (simp add: net_script_def resp_def w0_def)
  have unready: "\<forall>j<1. ?net (requests w0 + 1 + j) ?rq = Inr \<lparr>status = 503, json_result = ?body\<rparr>
                       \<and> status \<lparr>status = 503, json_result = ?body\<rparr> \<noteq> 200"
    by (simp add: net_script_def resp_def w0_def)
  have ready: "?net (requests w0 + 1 + 1) ?rq = resp 200"
    by (simp add: net_script_def w0_def)
  have ok: "\<forall>rl. resp 200 = Inr rl \<longrightarrow> status rl = 200"
    by (auto simp: resp_def)
  from waitForDeployment_redirect_not_ready
         [of ?net w0 "''https://app.now.sh''" "\<lparr>status = 302, json_result = ?body\<rparr>" 1
             "\<lambda>j. \<lparr>status = 503, json_result = ?body\<rparr>" "resp 200"]
       redirected unready ready ok
  show ?thesis by (simp add: w0_def resp_def)
qed

section \<open>Claims about the user-information fetch\<close>

lemma fetchTokenInformation_success:
  assumes "read_field ''user'' (net (requests w) (user_request token)) = Inr v"
  shows "fetchTokenInformation net token retries w =
           Some (Inr v, w\<lparr>requests := Suc (requests w),
                          trace := trace w @ [Fetch (user_request token)]\<rparr>)"
  using assms by (simp add: fetchTokenInformation_def fetch_def)

lemma fetchTokenInformation_retry:
  assumes "read_field ''user'' (net (requests w) (user_request token)) = Inl e"
    and "retries \<noteq> 0"
  shows "fetchTokenInformation net token retries w =
           fetchTokenWithRetry net user_url (js_minus_one retries)
             (w\<lparr>requests := Suc (requests w),
                trace := trace w @ [Fetch (user_request token), Log retries, Timeout 500]\<rparr>)"
  using assms by (simp add: fetchTokenInformation_def fetch_def emit_def)

text \<open>
  C9 asks that every retry of \<open>fetchTokenInformation\<close> repeats the first attempt: the
  GET of the user URL with the bearer header, resolving \<open>data.user\<close>. The code does
  not: with the first request refused and the second answered by
  \<open>{"user": {"email": "me@example.com"}}\<close>, the second request carries no
  \<open>Authorization\<close> header and the call resolves \<open>data.token\<close>, which is
  \<open>undefined\<close>, instead of the user object.
\<close>

theorem fetchTokenInformation_retry_is_token_fetch:
  "fetchTokenInformation
       (net_after 1 (JObj [(''user'', JObj [(''email'', JStr ''me@example.com'')])]))
       ''tok'' 3 w0 =
     Some (Inr None,
           \<lparr>requests = 2,
            trace =
              [Fetch \<lparr>url = ''https://api.zeit.co/www/user'',
                      headers = [(''Authorization'', ''Bearer tok'')], redirect = Follow\<rparr>,
               Log 3, Timeout 500,
               Fetch \<lparr>url = ''https://api.zeit.co/www/user'', headers = [],
                      redirect = Follow\<rparr>]\<rparr>)"
proof -
  let ?net = "net_after 1 (JObj [(''user'', JObj [(''email'', JStr ''me@example.com'')])])"
  let ?w1 = "w0\<lparr>requests := Suc (requests w0),
                 trace := trace w0 @ [Fetch (user_request ''tok''), Log 3, Timeout 500]\<rparr>"
  have "fetchTokenInformation ?net ''tok'' 3 w0 =
          fetchTokenWithRetry ?net user_url (js_minus_one 3) ?w1"
    by (rule fetchTokenInformation_retry [where e = "FetchError ''ECONNREFUSED''"])
       (simp_all add: net_after_def read_field_def w0_def)
  also have "\<dots> = Some (Inr None, ?w1\<lparr>requests := Suc (requests ?w1),
                                      trace := trace ?w1 @ [Fetch (token_request user_url)]\<rparr>)"
    by (rule fetchTokenWithRetry_success) (simp add: net_after_def read_field_def w0_def)
  finally show ?thesis
    by (simp add: w0_def user_request_def token_request_def user_url_def)
qed

section \<open>Claims about the alias target resolver\<close>

text \<open>
  The working indicator is cancelled once when the resolver returns a deployment and
  not at all when a lookup throws.
\<close>

lemma getDeploymentForAlias_cancel_count:
  "cancel_count (snd (getDeploymentForAlias env client args localConfigPath user contextName
                        localConfig)) =
     (case fst (getDeploymentForAlias env client args localConfigPath user contextName
                  localConfig) of
        Inl error \<Rightarrow> 0
      | Inr deployment \<Rightarrow> 1)"
  by (simp add: getDeploymentForAlias_def cancel_count_def Let_def split: sum.splits)

text \<open>
  C1 asks that the function returned by \<open>wait\<close> is called exactly once on every
  outcome, a thrown error included. The code calls it before each \<open>return\<close> only:
  with two arguments and a \<open>fetchDeploymentByIdOrHost\<close> that throws, the error
  leaves \<open>getDeploymentForAlias\<close> with the indicator never cancelled.
\<close>

theorem getDeploymentForAlias_error_leaves_indicator:
  "getDeploymentForAlias
       (env_of (Inl (FetchError ''ECONNREFUSED'')) (Inr ''my-app'') (Inr ''dep-456''))
       ''client'' [''dep-123'', ''foo.example.com''] None ''user'' ''acme'' ''config'' =
     (Inl (FetchError ''ECONNREFUSED''),
      [Warn ''The now alias command was deprecated in favour of now --target production.'',
       Wait ''Fetching deployment to alias in acme'',
       FetchDeploymentByIdOrHost ''acme'' ''dep-123''])
   \<and> cancel_count
        (snd (getDeploymentForAlias
                (env_of (Inl (FetchError ''ECONNREFUSED'')) (Inr ''my-app'') (Inr ''dep-456''))
                ''client'' [''dep-123'', ''foo.example.com''] None ''user'' ''acme''
                ''config'')) = 0"
  by (simp add: getDeploymentForAlias_def env_of_def cancel_count_def)

text \<open>
  C7. With exactly two positional arguments the resolver calls
  \<open>fetchDeploymentByIdOrHost\<close> on the first argument and its result (a deployment or
  a thrown error) is the result of the resolver. It calls neither \<open>getAppName\<close> nor
  \<open>getAppLastDeployment\<close>, and nothing it does depends on them, on the local
  configuration, on its path or on the user.
\<close>

theorem getDeploymentForAlias_two_args:
  assumes "length args = 2"
  shows "fst (getDeploymentForAlias env client args localConfigPath user contextName localConfig)
           = fetchDeploymentByIdOrHost env client contextName (args ! 0)
         \<and> FetchDeploymentByIdOrHost contextName (args ! 0)
             \<in> set (snd (getDeploymentForAlias env client args localConfigPath user contextName
                            localConfig))
         \<and> GetAppName
             \<notin> set (snd (getDeploymentForAlias env client args localConfigPath user contextName
                            localConfig))
         \<and> (\<forall>appName ctx. GetAppLastDeployment appName ctx
             \<notin> set (snd (getDeploymentForAlias env client args localConfigPath user contextName
                            localConfig)))
         \<and> getDeploymentForAlias (env\<lparr>getAppName := g, getAppLastDeployment := h\<rparr>) client args
             localConfigPath' user' contextName localConfig'
             = getDeploymentForAlias env client args localConfigPath user contextName localConfig"
  using assms
  by (cases args) (auto simp: getDeploymentForAlias_def Let_def split: sum.splits)

theorem getDeploymentForAlias_two_args_witness:
  "getDeploymentForAlias
       (env_of (Inr ''dep-123.now.sh'') (Inr ''my-app'') (Inr ''dep-456''))
       ''client'' [''dep-123'', ''foo.example.com''] None ''user'' ''acme'' ''config'' =
     (Inr ''dep-123.now.sh'',
      [Warn ''The now alias command was deprecated in favour of now --target production.'',
       Wait ''Fetching deployment to alias in acme'',
       FetchDeploymentByIdOrHost ''acme'' ''dep-123'',
       CancelWait])"
  using getDeploymentForAlias_two_args
          [of "[''dep-123'', ''foo.example.com'']"
              "env_of (Inr ''dep-123.now.sh'') (Inr ''my-app'') (Inr ''dep-456'')"
              "''client''" None "''user''" "''acme''" "''config''"]
  by (simp add: getDeploymentForAlias_def env_of_def)

text \<open>
  C10. With any other number of positional arguments (none, one, three or more) the
  resolver calls \<open>getAppName\<close>; when that returns an application name it calls
  \<open>getAppLastDeployment\<close> for that name and its result is the result of the
  resolver, and when \<open>getAppName\<close> throws so does the resolver. It never calls
  \<open>fetchDeploymentByIdOrHost\<close>: the explicit lookup runs with two arguments only.
\<close>

theorem getDeploymentForAlias_other_args:
  assumes "length args \<noteq> 2"
  shows "fst (getDeploymentForAlias env client args localConfigPath user contextName localConfig)
           = (case getAppName env localConfig localConfigPath of
                Inl error \<Rightarrow> Inl error
              | Inr appName \<Rightarrow> getAppLastDeployment env client appName user contextName)
         \<and> GetAppName
             \<in> set (snd (getDeploymentForAlias env client args localConfigPath user contextName
                            localConfig))
         \<and> (\<forall>appName. getAppName env localConfig localConfigPath = Inr appName \<longrightarrow>
               GetAppLastDeployment appName contextName
                 \<in> set (snd (getDeploymentForAlias env client args localConfigPath user
                                contextName localConfig)))
         \<and> (\<forall>ctx deploymentId. FetchDeploymentByIdOrHost ctx deploymentId
             \<notin> set (snd (getDeploymentForAlias env client args localConfigPath user contextName
                            localConfig)))"
  using assms
  by (auto simp: getDeploymentForAlias_def Let_def split: sum.splits)

theorem getDeploymentForAlias_other_args_witness:
  "fst (getDeploymentForAlias
          (env_of (Inr ''dep-123.now.sh'') (Inr ''my-app'') (Inr ''dep-456''))
          ''client'' [] None ''user'' ''acme'' ''config'') = Inr ''dep-456''
   \<and> fst (getDeploymentForAlias
          (env_of (Inr ''dep-123.now.sh'') (Inr ''my-app'') (Inr ''dep-456''))
          ''client'' [''foo.example.com''] None ''user'' ''acme'' ''config'') = Inr ''dep-456''
   \<and> fst (getDeploymentForAlias
          (env_of (Inr ''dep-123.now.sh'') (Inr ''my-app'') (Inr ''dep-456''))
          ''client'' [''dep-123'', ''foo.example.com'', ''bar.example.com''] None ''user''
          ''acme'' ''config'') = Inr ''dep-456''"
  using getDeploymentForAlias_other_args
          [of "[]" "env_of (Inr ''dep-123.now.sh'') (Inr ''my-app'') (Inr ''dep-456'')"
              "''client''" None "''user''" "''acme''" "''config''"]
        getDeploymentForAlias_other_args
          [of "[''foo.example.com'']"
              "env_of (Inr ''dep-123.now.sh'') (Inr ''my-app'') (Inr ''dep-456'')"
              "''client''" None "''user''" "''acme''" "''config''"]
        getDeploymentForAlias_other_args
          [of "[''dep-123'', ''foo.example.com'', ''bar.example.com'']"
              "env_of (Inr ''dep-123.now.sh'') (Inr ''my-app'') (Inr ''dep-456'')"
              "''client''" None "''user''" "''acme''" "''config''"]
  by (simp add: env_of_def)

end
